theory Spec2Isabelle
  imports Main "HOL-Library.Word"
begin

section \<open>The image compositor of \<^verbatim>\<open>src/image_generator/generate_image.py\<close>\<close>

text \<open>
  The script reads a JSON job description, downloads a background image, optionally
  pastes a resized foreground image on it at \<open>(40, 40)\<close> and saves the result.
  Its three functions (\<open>load_image_from_url\<close>, \<open>load_image_from_path_or_url\<close>,
  \<open>main\<close>) are embedded below as functions on an explicit process state. What the
  script takes from outside the repository is kept apart:
  \<^item> the outside world that cannot be computed (the network, the JSON parser, the image
    decoder, the mode conversion, the resampling filter, the encoder) is a record of
    functions, \<open>env\<close>, a parameter of every definition;
  \<^item> the library primitives whose behaviour the claims are about (\<open>raise_for_status\<close>,
    \<open>str.startswith\<close>, truth values, \<open>dict.get\<close>, \<open>Image.resize\<close>, \<open>Image.paste\<close>,
    \<open>Image.save\<close>) are written out from their documented behaviour.
\<close>

subsection \<open>Data\<close>

type_synonym bytes = "8 word list"

text \<open>
  A value read from the JSON document, as the Python object \<open>json.load\<close> builds for it.
  \<open>JObj\<close> holds the members of an object in document order. The numbers are the
  integers; numbers with a fraction are left out.
\<close>

datatype json =
    JNull
  | JBool bool
  | JNum int
  | JStr string
  | JArr "json list"
  | JObj "(string \<times> json) list"

text \<open>An RGBA pixel: the bands red, green, blue, alpha.\<close>

type_synonym pixel = "8 word \<times> 8 word \<times> 8 word \<times> 8 word"

definition alpha :: "pixel \<Rightarrow> 8 word" where
  "alpha p = (case p of (r, g, b, a) \<Rightarrow> a)"

text \<open>
  A raster image in mode RGBA: its size and its rows of pixels, top row first,
  \<open>rows im ! y ! x\<close> the pixel at column \<open>x\<close> of row \<open>y\<close>.
\<close>

record image =
  width :: nat
  height :: nat
  rows :: "pixel list list"

definition pix :: "image \<Rightarrow> nat \<Rightarrow> nat \<Rightarrow> pixel" where
  "pix im x y = rows im ! y ! x"

text \<open>\<open>Image.getpixel\<close>, with \<open>None\<close> for coordinates outside the image.\<close>

definition getpixel :: "image \<Rightarrow> nat \<Rightarrow> nat \<Rightarrow> pixel option" where
  "getpixel im x y = (if x < width im \<and> y < height im then Some (pix im x y) else None)"

record response =
  status_code :: nat
  content :: bytes

text \<open>
  The exceptions of the run. \<open>sys.exit(n)\<close> is kept apart from the exceptions that
  reach the top level uncaught: the script catches nothing, so either ends the process.
\<close>

datatype exn =
    HTTPError nat
  | RequestException
  | FileNotFoundError
  | UnidentifiedImageError
  | JSONDecodeError
  | AttributeError
  | OSError
  | ValueError

datatype abort = SystemExit nat | Uncaught exn

text \<open>What the process does to the outside, in order.\<close>

datatype event =
    FileOpen string
  | HttpGet json
  | ImageSave string image

text \<open>The process state: the filesystem, what was printed, and the calls made so far.\<close>

record world =
  files :: "string \<rightharpoonup> bytes"
  stdout :: "string list"
  trace :: "event list"

text \<open>
  The parts of the libraries that are not computed here. \<open>requests.get\<close> is given
  whatever object the job description holds, a string or not, and may raise instead of
  answering. \<open>'r\<close> is the decoder's image before the conversion to RGBA, in whatever
  mode the file has. The encoder is chosen by the extension of the path; when it
  raises, it says what had been written to the file by then, \<open>None\<close> when the file
  had not been opened at all.
\<close>

record 'r env =
  requests_get :: "json \<Rightarrow> exn + response"
  json_load :: "bytes \<Rightarrow> exn + json"
  image_open :: "bytes \<Rightarrow> exn + 'r"
  convert_RGBA :: "'r \<Rightarrow> exn + image"
  resample :: "image \<Rightarrow> nat \<times> nat \<Rightarrow> nat \<Rightarrow> nat \<Rightarrow> pixel"
  encode :: "string \<Rightarrow> image \<Rightarrow> (exn \<times> bytes option) + bytes"

subsection \<open>Python and library primitives\<close>

text \<open>The truth value of an object, as \<open>if x\<close> and \<open>if not x\<close> take it.\<close>

fun truthy :: "json \<Rightarrow> bool" where
  "truthy JNull = False"
| "truthy (JBool b) = b"
| "truthy (JNum n) = (n \<noteq> 0)"
| "truthy (JStr s) = (s \<noteq> [])"
| "truthy (JArr xs) = (xs \<noteq> [])"
| "truthy (JObj kvs) = (kvs \<noteq> [])"

text \<open>
  \<open>data.get(key)\<close>: the value of the key, \<open>None\<close> (here \<open>JNull\<close>) when the key is
  missing; of two members with one name the parser keeps the later. An object that is
  not a dict has no \<open>get\<close>.
\<close>

definition dict_get :: "json \<Rightarrow> string \<Rightarrow> exn + json" where
  "dict_get data k =
     (case data of
        JObj kvs \<Rightarrow> (case map_of (rev kvs) k of None \<Rightarrow> Inr JNull | Some v \<Rightarrow> Inr v)
      | _ \<Rightarrow> Inl AttributeError)"

definition startswith :: "string \<Rightarrow> string \<Rightarrow> bool" where
  "startswith s p = (take (length p) s = p)"

text \<open>\<open>Response.raise_for_status\<close>: an error for a 4xx or 5xx status, nothing otherwise.\<close>

definition raise_for_status :: "response \<Rightarrow> exn + unit" where
  "raise_for_status resp =
     (if 400 \<le> status_code resp \<and> status_code resp < 600
      then Inl (HTTPError (status_code resp)) else Inr ())"

definition print :: "string \<Rightarrow> world \<Rightarrow> world" where
  "print msg w = w\<lparr>stdout := stdout w @ [msg]\<rparr>"

definition log_event :: "event \<Rightarrow> world \<Rightarrow> world" where
  "log_event e w = w\<lparr>trace := trace w @ [e]\<rparr>"

text \<open>\<open>open(path)\<close> for reading, and the whole content of the file.\<close>

definition read_file :: "string \<Rightarrow> world \<Rightarrow> (exn + bytes) \<times> world" where
  "read_file path w =
     (case files w path of
        None \<Rightarrow> (Inl FileNotFoundError, log_event (FileOpen path) w)
      | Some bs \<Rightarrow> (Inr bs, log_event (FileOpen path) w))"

text \<open>\<open>Image.open(...).convert("RGBA")\<close> on the bytes of an image file.\<close>

definition open_convert :: "'r env \<Rightarrow> bytes \<Rightarrow> exn + image" where
  "open_convert env bs =
     (case image_open env bs of Inl e \<Rightarrow> Inl e | Inr raw \<Rightarrow> convert_RGBA env raw)"

text \<open>
  \<open>Image.resize(size)\<close>: a new image of exactly the requested size, each pixel computed
  by the resampling filter from the source image. Nothing keeps the aspect ratio.
\<close>

definition resize :: "'r env \<Rightarrow> image \<Rightarrow> nat \<times> nat \<Rightarrow> image" where
  "resize env im sz =
     (case sz of (w, h) \<Rightarrow>
        \<lparr>width = w, height = h,
         rows = map (\<lambda>y. map (\<lambda>x. resample env im (w, h) x y) [0..<w]) [0..<h]\<rparr>)"

text \<open>
  The mixing of one band under a mask value, as the paste primitive computes it:
  the rounded \<open>(a * (255 - m) + b * m) / 255\<close>.
\<close>

definition div255 :: "nat \<Rightarrow> nat" where
  "div255 t = ((t + 128) div 256 + (t + 128)) div 256"

definition blend :: "8 word \<Rightarrow> 8 word \<Rightarrow> 8 word \<Rightarrow> 8 word" where
  "blend m a b = of_nat (div255 (unat a * (255 - unat m) + unat b * unat m))"

definition blend_pixel :: "8 word \<Rightarrow> pixel \<Rightarrow> pixel \<Rightarrow> pixel" where
  "blend_pixel m p q =
     (case p of (r1, g1, b1, a1) \<Rightarrow> case q of (r2, g2, b2, a2) \<Rightarrow>
        (blend m r1 r2, blend m g1 g2, blend m b1 b2, blend m a1 a2))"

text \<open>
  \<open>Image.paste(im, box, mask=None)\<close> with a 2-tuple \<open>box\<close>, the upper left corner of
  the region, which has the size of the pasted image. The part of the region outside
  the destination is clipped. Without a mask every pixel of the region is replaced by
  the source pixel, all four bands of it, so that the alpha band of an RGBA source is
  copied like the others and masks nothing. With a mask the alpha band of the mask
  mixes the two pixels: 255 copies the source, 0 keeps the destination.
\<close>

definition paste :: "image \<Rightarrow> image \<Rightarrow> int \<times> int \<Rightarrow> image option \<Rightarrow> image" where
  "paste im src box msk =
     (case box of (dx, dy) \<Rightarrow>
        im\<lparr>rows :=
          map (\<lambda>y. map (\<lambda>x.
                 if dx \<le> int x \<and> int x < dx + int (width src) \<and>
                    dy \<le> int y \<and> int y < dy + int (height src)
                 then (case msk of
                         None \<Rightarrow> pix src (nat (int x - dx)) (nat (int y - dy))
                       | Some m \<Rightarrow>
                           blend_pixel (alpha (pix m (nat (int x - dx)) (nat (int y - dy))))
                             (pix im x y) (pix src (nat (int x - dx)) (nat (int y - dy))))
                 else pix im x y)
               [0..<width im])
            [0..<height im]\<rparr>)"

text \<open>
  \<open>Image.save(path)\<close>: the format is chosen by the extension of the path, the file is
  opened for writing, which empties it, and the encoder writes its bytes. A save that
  raises before the file is opened (an extension that names no format, a path that
  cannot be written) leaves the path as it was. When the encoder raises after that, a
  file that the save created is removed again, and a file that was there before keeps
  what was written up to the exception, nothing if the encoder raised at once.
\<close>

definition save :: "'r env \<Rightarrow> image \<Rightarrow> string \<Rightarrow> world \<Rightarrow> (exn + unit) \<times> world" where
  "save env im path w =
     (let w1 = log_event (ImageSave path im) w in
      case encode env path im of
        Inl failure \<Rightarrow>
          (case snd failure of
             None \<Rightarrow> (Inl (fst failure), w1)
           | Some written \<Rightarrow>
               (Inl (fst failure),
                if files w path = None then w1
                else w1\<lparr>files := (files w)(path \<mapsto> written)\<rparr>))
      | Inr bs \<Rightarrow> (Inr (), w1\<lparr>files := (files w)(path \<mapsto> bs)\<rparr>))"

subsection \<open>The script\<close>

text \<open>
  \<^verbatim>\<open>
  def load_image_from_url(url):
      resp = requests.get(url)
      resp.raise_for_status()
      return Image.open(BytesIO(resp.content)).convert("RGBA")
  \<close>
\<close>

definition load_image_from_url :: "'r env \<Rightarrow> json \<Rightarrow> world \<Rightarrow> (exn + image) \<times> world" where
  "load_image_from_url env url w =
     (let w1 = log_event (HttpGet url) w in
      case requests_get env url of
        Inl e \<Rightarrow> (Inl e, w1)
      | Inr resp \<Rightarrow>
          (case raise_for_status resp of
             Inl e \<Rightarrow> (Inl e, w1)
           | Inr _ \<Rightarrow> (open_convert env (content resp), w1)))"

text \<open>
  \<^verbatim>\<open>
  def load_image_from_path_or_url(path_or_url):
      if path_or_url.startswith('http'):
          return load_image_from_url(path_or_url)
      else:
          return Image.open(path_or_url).convert("RGBA")
  \<close>
  Only a string has \<open>startswith\<close>.
\<close>

definition load_image_from_path_or_url ::
    "'r env \<Rightarrow> json \<Rightarrow> world \<Rightarrow> (exn + image) \<times> world" where
  "load_image_from_path_or_url env path_or_url w =
     (case path_or_url of
        JStr s \<Rightarrow>
          if startswith s ''http'' then load_image_from_url env path_or_url w
          else (case read_file s w of
                  (Inl e, w1) \<Rightarrow> (Inl e, w1)
                | (Inr bs, w1) \<Rightarrow> (open_convert env bs, w1))
      | _ \<Rightarrow> (Inl AttributeError, w))"

text \<open>
  An exception of a call that nothing catches ends \<open>main\<close> there and reaches the top
  level.
\<close>

definition uncaught :: "(exn + 'a) \<times> world \<Rightarrow> (abort + 'a) \<times> world" where
  "uncaught r = (case r of (Inl e, w) \<Rightarrow> (Inl (Uncaught e), w) | (Inr a, w) \<Rightarrow> (Inr a, w))"

text \<open>
  \<open>main\<close>, with \<open>sys.argv\<close> as its argument; \<open>img\<close> is the script's variable
  \<open>image\<close>. The result is \<open>Inr ()\<close> when \<open>main\<close> returns, \<open>Inl\<close> when \<open>sys.exit\<close> or
  an exception ends it.
  \<^verbatim>\<open>
  def main():
      if len(sys.argv) != 3:
          print("Usage: generate_image.py input_json_path output_path")
          sys.exit(1)
      with open(sys.argv[1], 'r', encoding='utf-8') as f:
          data = json.load(f)
      output_path = sys.argv[2]
      template_url = data.get('template_url')
      if not template_url:
          print("Missing template_url in input data")
          sys.exit(1)
      image = load_image_from_url(template_url)
      user_image_path = data.get('user_image_path')
      if user_image_path:
          user_img = load_image_from_path_or_url(user_image_path).resize((250, 250))
          image.paste(user_img, (40, 40))
      image.save(output_path)
  \<close>
\<close>

definition main :: "'r env \<Rightarrow> string list \<Rightarrow> world \<Rightarrow> (abort + unit) \<times> world" where
  "main env argv w =
     (if length argv \<noteq> 3
      then (Inl (SystemExit 1),
            print ''Usage: generate_image.py input_json_path output_path'' w)
      else
       (case read_file (argv ! 1) w of
          (Inl e, w1) \<Rightarrow> (Inl (Uncaught e), w1)
        | (Inr bs, w1) \<Rightarrow>
       (case json_load env bs of
          Inl e \<Rightarrow> (Inl (Uncaught e), w1)
        | Inr data \<Rightarrow>
       (let output_path = argv ! 2 in
       (case dict_get data ''template_url'' of
          Inl e \<Rightarrow> (Inl (Uncaught e), w1)
        | Inr template_url \<Rightarrow>
       (if \<not> truthy template_url
        then (Inl (SystemExit 1), print ''Missing template_url in input data'' w1)
        else
       (case load_image_from_url env template_url w1 of
          (Inl e, w2) \<Rightarrow> (Inl (Uncaught e), w2)
        | (Inr img, w2) \<Rightarrow>
       (case dict_get data ''user_image_path'' of
          Inl e \<Rightarrow> (Inl (Uncaught e), w2)
        | Inr user_image_path \<Rightarrow>
       (if truthy user_image_path
        then
          (case load_image_from_path_or_url env user_image_path w2 of
             (Inl e, w3) \<Rightarrow> (Inl (Uncaught e), w3)
           | (Inr loaded, w3) \<Rightarrow>
               (let user_img = resize env loaded (250, 250);
                    img' = paste img user_img (40, 40) None
                in uncaught (save env img' output_path w3)))
        else uncaught (save env img output_path w2))))))))))"

text \<open>The exit status of the process: 0 when \<open>main\<close> returns, 1 for an uncaught exception.\<close>

fun exit_status :: "abort + unit \<Rightarrow> nat" where
  "exit_status (Inr u) = 0"
| "exit_status (Inl (SystemExit n)) = n"
| "exit_status (Inl (Uncaught e)) = 1"

text \<open>
  The job description with one key taken out, for comparing a run on a job that holds
  the key with the run on the job that lacks it.
\<close>

definition without_key :: "string \<Rightarrow> json \<Rightarrow> json" where
  "without_key k data =
     (case data of JObj kvs \<Rightarrow> JObj (filter (\<lambda>kv. fst kv \<noteq> k) kvs) | _ \<Rightarrow> data)"

subsection \<open>A concrete environment\<close>

text \<open>
  One small world on which the script can be run by evaluation: a server with a
  background image, a missing one, a broken one and one that comes with status 300
  (Multiple Choices, which the HTTP library does not follow), a folder of job files, and a
  foreground file \<open>user.png\<close>. The background is 300 by 300, opaque red; the foreground
  is a single fully transparent pixel. The decoder yields RGBA images, so the
  conversion has nothing to do; the filter is nearest neighbour.
\<close>

definition demo_bg :: image where
  "demo_bg = \<lparr>width = 300, height = 300, rows = replicate 300 (replicate 300 (255, 0, 0, 255))\<rparr>"

definition demo_fg :: image where
  "demo_fg = \<lparr>width = 1, height = 1, rows = [[(0, 0, 0, 0)]]\<rparr>"

definition demo_jobs :: "(bytes \<times> json) list" where
  "demo_jobs =
     [([1], JObj [(''template_url'', JStr ''http://host/template.png''),
                  (''user_image_path'', JStr ''user.png'')]),
      ([2], JObj [(''template_url'', JStr ''http://host/template.png'')]),
      ([3], JObj [(''user_image_path'', JStr ''user.png'')]),
      ([4], JObj [(''template_url'', JStr []), (''user_image_path'', JStr ''user.png'')]),
      ([5], JObj [(''template_url'', JStr ''http://host/template.png''),
                  (''user_image_path'', JStr [])]),
      ([6], JObj [(''template_url'', JStr ''template.png'')]),
      ([7], JObj [(''template_url'', JStr ''http://host/gone.png'')]),
      ([8], JObj [(''template_url'', JStr ''http://host/template.png''),
                  (''user_image_path'', JStr ''nofile.png'')]),
      ([9], JObj [(''template_url'', JStr ''http://host/broken.png'')]),
      ([14], JObj [(''template_url'', JStr ''http://host/template.png''),
                   (''user_image_path'', JStr ''http://host/gone.png'')])]"

definition demo_env :: "image env" where
  "demo_env =
     \<lparr>requests_get = (\<lambda>url.
        if url = JStr ''http://host/template.png'' then Inr \<lparr>status_code = 200, content = [10]\<rparr>
        else if url = JStr ''http://host/broken.png'' then Inr \<lparr>status_code = 200, content = [13]\<rparr>
        else if url = JStr ''http://host/gone.png'' then Inr \<lparr>status_code = 404, content = []\<rparr>
        else if url = JStr ''http://host/choices.png'' then Inr \<lparr>status_code = 300, content = [10]\<rparr>
        else Inl RequestException),
      json_load = (\<lambda>bs. case map_of demo_jobs bs of None \<Rightarrow> Inl JSONDecodeError | Some j \<Rightarrow> Inr j),
      image_open = (\<lambda>bs.
        if bs = [10] then Inr demo_bg
        else if bs = [11] then Inr demo_fg
        else Inl UnidentifiedImageError),
      convert_RGBA = Inr,
      resample = (\<lambda>im sz x y.
        case sz of (w, h) \<Rightarrow> pix im (x * width im div w) (y * height im div h)),
      encode = (\<lambda>path im. Inr [12])\<rparr>"

definition demo_files :: "string \<rightharpoonup> bytes" where
  "demo_files =
     map_of [(''job.json'', [1]), (''bg_only.json'', [2]), (''no_template.json'', [3]),
             (''empty_template.json'', [4]), (''empty_user.json'', [5]),
             (''local_template.json'', [6]), (''gone.json'', [7]),
             (''missing_fg.json'', [8]), (''broken.json'', [9]), (''gone_fg.json'', [14]),
             (''template.png'', [10]), (''user.png'', [11])]"

definition demo_world :: world where
  "demo_world = \<lparr>files = demo_files, stdout = [], trace = []\<rparr>"

definition demo_argv :: "string \<Rightarrow> string list" where
  "demo_argv job = [''generate_image.py'', job, ''out.png'']"





section \<open>Properties\<close>

subsection \<open>The image primitives\<close>

lemma width_paste: "width (paste im src box m) = width im"
  by (simp add: paste_def split: prod.splits)

lemma height_paste: "height (paste im src box m) = height im"
  by (simp add: paste_def split: prod.splits)

lemma getpixel_paste_None:
  "getpixel (paste im src (dx, dy) None) x y =
     (if x < width im \<and> y < height im
      then Some (if dx \<le> int x \<and> int x < dx + int (width src) \<and>
                    dy \<le> int y \<and> int y < dy + int (height src)
                 then pix src (nat (int x - dx)) (nat (int y - dy))
                 else pix im x y)
      else None)"
  by (simp add: getpixel_def paste_def pix_def)

lemma width_resize: "width (resize env im (w, h)) = w"
  by (simp add: resize_def)

lemma height_resize: "height (resize env im (w, h)) = h"
  by (simp add: resize_def)

lemma rows_resize:
  "length (rows (resize env im (w, h))) = h"
  "r \<in> set (rows (resize env im (w, h))) \<Longrightarrow> length r = w"
  by (auto simp add: resize_def)

lemma getpixel_resize:
  "getpixel (resize env im (w, h)) x y =
     (if x < w \<and> y < h then Some (resample env im (w, h) x y) else None)"
  by (simp add: getpixel_def resize_def pix_def)

text \<open>Inside the pasted region the pixel is the pixel of the pasted image.\<close>

lemma pix_resize:
  "x < w \<Longrightarrow> y < h \<Longrightarrow> pix (resize env im (w, h)) x y = resample env im (w, h) x y"
  by (simp add: resize_def pix_def)

lemma getpixel_paste_inside:
  assumes "40 \<le> x" "x < 290" "40 \<le> y" "y < 290" "x < width bg" "y < height bg"
  shows "getpixel (paste bg (resize env fg (250, 250)) (40, 40) None) x y =
         getpixel (resize env fg (250, 250)) (x - 40) (y - 40)"
proof -
  have n: "nat (int x - 40) = x - 40" "nat (int y - 40) = y - 40"
    by simp_all
  have b: "x - 40 < 250" "y - 40 < 250"
    using assms by simp_all
  have "getpixel (paste bg (resize env fg (250, 250)) (40, 40) None) x y =
        Some (pix (resize env fg (250, 250)) (x - 40) (y - 40))"
    using assms by (simp add: getpixel_paste_None width_resize height_resize n)
  also have "\<dots> = getpixel (resize env fg (250, 250)) (x - 40) (y - 40)"
    using b by (simp add: getpixel_resize pix_resize)
  finally show ?thesis .
qed

text \<open>Outside the region the pixel is the pixel of the destination.\<close>

lemma getpixel_paste_outside:
  assumes "\<not> (40 \<le> x \<and> x < 290 \<and> 40 \<le> y \<and> y < 290)"
  shows "getpixel (paste bg (resize env fg (250, 250)) (40, 40) None) x y = getpixel bg x y"
proof -
  have "\<not> (40 \<le> int x \<and> int x < 40 + int 250 \<and> 40 \<le> int y \<and> int y < 40 + int 250)"
    using assms by auto
  then show ?thesis
    by (simp only: getpixel_paste_None width_resize height_resize if_False
          getpixel_def [of bg])
qed

text \<open>
  What a mask would do: where its alpha is 0 the destination pixel stays, where it is
  255 the source pixel is copied.
\<close>

lemma div255_exact: "n < 256 \<Longrightarrow> div255 (n * 255) = n"
  unfolding div255_def by arith

lemma blend_ends: "blend 0 a b = a" "blend 255 a b = b"
proof -
  have "unat a < 256" "unat b < 256"
    using unsigned_less [of a, where 'a = nat] unsigned_less [of b, where 'a = nat]
    by simp_all
  then show "blend 0 a b = a" "blend 255 a b = b"
    by (simp_all add: blend_def div255_exact)
qed

lemma blend_pixel_ends: "blend_pixel 0 p q = p" "blend_pixel 255 p q = q"
  by (simp_all add: blend_pixel_def blend_ends split: prod.splits)

lemma getpixel_paste_mask:
  "getpixel (paste im src (dx, dy) (Some m)) x y =
     (if x < width im \<and> y < height im
      then Some (if dx \<le> int x \<and> int x < dx + int (width src) \<and>
                    dy \<le> int y \<and> int y < dy + int (height src)
                 then blend_pixel (alpha (pix m (nat (int x - dx)) (nat (int y - dy))))
                        (pix im x y) (pix src (nat (int x - dx)) (nat (int y - dy)))
                 else pix im x y)
      else None)"
  by (simp add: getpixel_def paste_def pix_def)

lemma paste_mask_transparent:
  assumes "alpha (pix m (nat (int x - dx)) (nat (int y - dy))) = 0"
  shows "getpixel (paste im src (dx, dy) (Some m)) x y = getpixel im x y"
  using assms by (simp add: getpixel_paste_mask blend_pixel_ends getpixel_def [of im])


subsection \<open>Results and states of the steps\<close>

lemma case_result:
  "(case p of (Inl e, w) \<Rightarrow> A e w | (Inr i, w) \<Rightarrow> B i w) =
   (case fst p of Inl e \<Rightarrow> A e (snd p) | Inr i \<Rightarrow> B i (snd p))"
  by (cases p) (simp split: sum.splits)

lemma world_simps:
  "trace (log_event e w) = trace w @ [e]" "files (log_event e w) = files w"
  "stdout (log_event e w) = stdout w"
  "trace (print m w) = trace w" "files (print m w) = files w"
  "stdout (print m w) = stdout w @ [m]"
  by (simp_all add: log_event_def print_def)

lemma read_file_eq:
  "read_file p w = (r, w') \<longleftrightarrow>
     w' = log_event (FileOpen p) w \<and>
     r = (case files w p of None \<Rightarrow> Inl FileNotFoundError | Some bs \<Rightarrow> Inr bs)"
  by (auto simp: read_file_def split: option.splits)

lemma fst_read_file:
  "fst (read_file p w) = (case files w p of None \<Rightarrow> Inl FileNotFoundError | Some bs \<Rightarrow> Inr bs)"
  by (simp add: read_file_def split: option.splits)

lemma snd_read_file: "snd (read_file p w) = log_event (FileOpen p) w"
  by (simp add: read_file_def split: option.splits)

lemma fst_load_image_from_url:
  "fst (load_image_from_url env url w) =
     (case requests_get env url of
        Inl e \<Rightarrow> Inl e
      | Inr resp \<Rightarrow>
          if 400 \<le> status_code resp \<and> status_code resp < 600
          then Inl (HTTPError (status_code resp))
          else open_convert env (content resp))"
  by (simp add: load_image_from_url_def raise_for_status_def Let_def split: sum.splits)

lemma snd_load_image_from_url:
  "snd (load_image_from_url env url w) = log_event (HttpGet url) w"
  by (simp add: load_image_from_url_def Let_def split: sum.splits)

lemma fst_load_image_from_path_or_url:
  "fst (load_image_from_path_or_url env u w) =
     (case u of
        JStr s \<Rightarrow>
          if startswith s ''http'' then fst (load_image_from_url env u w)
          else (case files w s of
                  None \<Rightarrow> Inl FileNotFoundError
                | Some bs \<Rightarrow> open_convert env bs)
      | _ \<Rightarrow> Inl AttributeError)"
  by (cases u) (simp_all add: load_image_from_path_or_url_def read_file_def split: option.splits)

lemma snd_load_image_from_path_or_url:
  "snd (load_image_from_path_or_url env u w) =
     (case u of
        JStr s \<Rightarrow> log_event (if startswith s ''http'' then HttpGet u else FileOpen s) w
      | _ \<Rightarrow> w)"
  by (cases u)
    (simp_all add: load_image_from_path_or_url_def snd_load_image_from_url read_file_def
       split: option.splits)



lemma trace_save: "trace (snd (save env im p w)) = trace w @ [ImageSave p im]"
  by (simp add: save_def Let_def world_simps split: sum.splits option.splits)

lemma fst_uncaught:
  "fst (uncaught r) = (case fst r of Inl e \<Rightarrow> Inl (Uncaught e) | Inr a \<Rightarrow> Inr a)"
  by (simp add: uncaught_def split: prod.splits sum.splits)

lemma snd_uncaught: "snd (uncaught r) = snd r"
  by (simp add: uncaught_def split: prod.splits sum.splits)

lemma saved:
  "encode env p im = Inr obs \<Longrightarrow>
   uncaught (save env im p w) =
     (Inr (), (log_event (ImageSave p im) w)\<lparr>files := (files w)(p \<mapsto> obs)\<rparr>)"
  by (simp add: uncaught_def save_def Let_def)

lemma dict_get_JObj:
  "dict_get (JObj kvs) k = Inr (case map_of (rev kvs) k of None \<Rightarrow> JNull | Some v \<Rightarrow> v)"
  by (simp add: dict_get_def split: option.splits)

lemma dict_get_absent: "k \<notin> fst ` set kvs \<Longrightarrow> dict_get (JObj kvs) k = Inr JNull"
  by (simp add: dict_get_JObj map_of_eq_None_iff [THEN iffD2])

lemma dict_get_is_dict: "dict_get data k = Inr v \<Longrightarrow> \<exists>kvs. data = JObj kvs"
  by (cases data) (simp_all add: dict_get_def)

lemma map_of_filter_key:
  "map_of (filter (\<lambda>kv. fst kv \<noteq> k) xs) k' = (if k' = k then None else map_of xs k')"
  by (induction xs) auto

lemma dict_get_without_key:
  "dict_get (without_key k (JObj kvs)) k' =
     (if k' = k then Inr JNull else dict_get (JObj kvs) k')"
  by (simp add: without_key_def dict_get_JObj rev_filter map_of_filter_key)

text \<open>The loaders, the resize and the save do not look at the JSON parser.\<close>

lemma open_convert_json_load:
  "open_convert (env\<lparr>json_load := f\<rparr>) bs = open_convert env bs"
  by (simp add: open_convert_def split: sum.splits)

lemma json_load_irrelevant:
  "load_image_from_url (env\<lparr>json_load := f\<rparr>) url w = load_image_from_url env url w"
  "load_image_from_path_or_url (env\<lparr>json_load := f\<rparr>) u w = load_image_from_path_or_url env u w"
  "resize (env\<lparr>json_load := f\<rparr>) im sz = resize env im sz"
  "save (env\<lparr>json_load := f\<rparr>) im p w = save env im p w"
  by (simp_all add: load_image_from_url_def load_image_from_path_or_url_def
        open_convert_json_load resize_def save_def Let_def
        split: sum.splits json.splits prod.splits option.splits)

subsection \<open>The steps of main\<close>





lemma main_parsed:
  assumes "length argv = 3" "read_file (argv ! 1) w = (Inr bs, w1)"
    "json_load env bs = Inr data" "dict_get data ''template_url'' = Inr t"
  shows "main env argv w =
     (if \<not> truthy t then (Inl (SystemExit 1), print ''Missing template_url in input data'' w1)
      else (case load_image_from_url env t w1 of
          (Inl e, w2) \<Rightarrow> (Inl (Uncaught e), w2)
        | (Inr img, w2) \<Rightarrow>
       (case dict_get data ''user_image_path'' of
          Inl e \<Rightarrow> (Inl (Uncaught e), w2)
        | Inr user_image_path \<Rightarrow>
       (if truthy user_image_path
        then
          (case load_image_from_path_or_url env user_image_path w2 of
             (Inl e, w3) \<Rightarrow> (Inl (Uncaught e), w3)
           | (Inr loaded, w3) \<Rightarrow>
               uncaught (save env (paste img (resize env loaded (250, 250)) (40, 40) None)
                           (argv ! 2) w3))
        else uncaught (save env img (argv ! 2) w2)))))"
  using assms by (simp add: main_def Let_def cong: prod.case_cong sum.case_cong if_cong)

lemma main_composite:
  assumes "length argv = 3" "read_file (argv ! 1) w = (Inr bs, w1)"
    "json_load env bs = Inr data"
    "dict_get data ''template_url'' = Inr t" "truthy t"
    "load_image_from_url env t w1 = (Inr bg, w2)"
    "dict_get data ''user_image_path'' = Inr u" "truthy u"
    "load_image_from_path_or_url env u w2 = (Inr fg, w3)"
  shows "main env argv w =
           uncaught (save env (paste bg (resize env fg (250, 250)) (40, 40) None) (argv ! 2) w3)"
  using assms(5-9) by (simp add: main_parsed [OF assms(1-4)])

lemma main_background_only:
  assumes "length argv = 3" "read_file (argv ! 1) w = (Inr bs, w1)"
    "json_load env bs = Inr data"
    "dict_get data ''template_url'' = Inr t" "truthy t"
    "load_image_from_url env t w1 = (Inr bg, w2)"
    "dict_get data ''user_image_path'' = Inr u" "\<not> truthy u"
  shows "main env argv w = uncaught (save env bg (argv ! 2) w2)"
  using assms(5-8) by (simp add: main_parsed [OF assms(1-4)])

lemma main_missing:
  assumes "length argv = 3" "read_file (argv ! 1) w = (Inr bs, w1)"
    "json_load env bs = Inr data"
    "dict_get data ''template_url'' = Inr t" "\<not> truthy t"
  shows "main env argv w = (Inl (SystemExit 1), print ''Missing template_url in input data'' w1)"
  using assms(5) by (simp add: main_parsed [OF assms(1-4)])

lemma main_background_failed:
  assumes "length argv = 3" "read_file (argv ! 1) w = (Inr bs, w1)"
    "json_load env bs = Inr data"
    "dict_get data ''template_url'' = Inr t" "truthy t"
    "fst (load_image_from_url env t w1) = Inl e"
  shows "main env argv w = (Inl (Uncaught e), log_event (HttpGet t) w1)"
  using assms(5-6)
  by (simp add: main_parsed [OF assms(1-4)] case_result snd_load_image_from_url)

lemma main_foreground_failed:
  assumes "length argv = 3" "read_file (argv ! 1) w = (Inr bs, w1)"
    "json_load env bs = Inr data"
    "dict_get data ''template_url'' = Inr t" "truthy t"
    "load_image_from_url env t w1 = (Inr bg, w2)"
    "dict_get data ''user_image_path'' = Inr u" "truthy u"
    "fst (load_image_from_path_or_url env u w2) = Inl e"
  shows "main env argv w = (Inl (Uncaught e), snd (load_image_from_path_or_url env u w2))"
  using assms(5-9)
  by (simp add: main_parsed [OF assms(1-4)] case_result)

text \<open>After the job file is read and parsed, the next call is the GET of \<open>template_url\<close>.\<close>

lemma main_trace_after_fetch:
  assumes "length argv = 3" "read_file (argv ! 1) w = (Inr bs, w1)"
    "json_load env bs = Inr data" "dict_get data ''template_url'' = Inr t" "truthy t"
  shows "trace (snd (main env argv w)) =
           trace w @ [FileOpen (argv ! 1), HttpGet t] @
             drop (length (trace w) + 2) (trace (snd (main env argv w)))
       \<and> (\<forall>p. FileOpen p \<in> set (drop (length (trace w) + 2) (trace (snd (main env argv w)))) \<longrightarrow>
             dict_get data ''user_image_path'' = Inr (JStr p) \<and> \<not> startswith p ''http'')"
proof -
  have w1: "w1 = log_event (FileOpen (argv ! 1)) w"
    using assms(2) by (simp add: read_file_eq)
  show ?thesis
    unfolding main_parsed [OF assms(1-4)] case_result w1
    using assms(5)
    by (simp add: snd_load_image_from_url snd_load_image_from_path_or_url
          trace_save snd_uncaught world_simps
          split: sum.splits json.splits)
qed

subsection \<open>The concrete environment\<close>

lemma demo_sizes: "width demo_bg = 300" "height demo_bg = 300"
  by (simp_all add: demo_bg_def)

lemma demo_load_template:
  "load_image_from_url demo_env (JStr ''http://host/template.png'') w =
     (Inr demo_bg, log_event (HttpGet (JStr ''http://host/template.png'')) w)"
  by (simp add: load_image_from_url_def demo_env_def raise_for_status_def open_convert_def)

lemma demo_load_user:
  "files w = demo_files \<Longrightarrow>
   load_image_from_path_or_url demo_env (JStr ''user.png'') w =
     (Inr demo_fg, log_event (FileOpen ''user.png'') w)"
  by (simp add: load_image_from_path_or_url_def startswith_def read_file_def demo_files_def
        demo_env_def open_convert_def)

lemma demo_parse:
  assumes "demo_files j = Some bs" "map_of demo_jobs bs = Some data"
  shows "length (demo_argv j) = 3"
    and "read_file (demo_argv j ! 1) demo_world = (Inr bs, log_event (FileOpen j) demo_world)"
    and "json_load demo_env bs = Inr data"
    and "demo_argv j ! 2 = ''out.png''"
  using assms
  by (simp_all add: demo_argv_def demo_env_def read_file_def demo_world_def)

lemma demo_world_files: "files demo_world = demo_files"
  by (simp add: demo_world_def)

lemma demo_encode: "encode demo_env p im = Inr [12]"
  by (simp add: demo_env_def)

lemma demo_pixels:
  "getpixel demo_bg 40 40 = Some (255, 0, 0, 255)"
  "getpixel (resize demo_env demo_fg (250, 250)) 0 0 = Some (0, 0, 0, 0)"
  by (simp_all add: getpixel_resize,
      simp_all add: getpixel_def pix_def demo_bg_def demo_fg_def demo_env_def)

section \<open>The claims\<close>

subsection \<open>C1: the composite\<close>

text \<open>
  Claim C1 says that the foreground is stretched to 250 by 250 and composited at
  \<open>(40, 40)\<close> with its own alpha channel as the paste mask, so that a fully
  transparent foreground pixel leaves the background pixel as it was. The script calls
  \<open>image.paste(user_img, (40, 40))\<close> with no mask. In the concrete environment the
  run on \<open>job.json\<close> saves the composite, the foreground pixel at \<open>(0, 0)\<close> is fully
  transparent, the background pixel under it at \<open>(40, 40)\<close> is opaque red, and the
  saved pixel is the transparent one: the background pixel did not stay. With the
  foreground as mask it would have stayed.
\<close>

theorem C1_counterexample:
  "fst (main demo_env (demo_argv ''job.json'') demo_world) = Inr ()
   \<and> last (trace (snd (main demo_env (demo_argv ''job.json'') demo_world))) =
       ImageSave ''out.png'' (paste demo_bg (resize demo_env demo_fg (250, 250)) (40, 40) None)
   \<and> getpixel (resize demo_env demo_fg (250, 250)) 0 0 = Some (0, 0, 0, 0)
   \<and> alpha (0, 0, 0, 0) = 0
   \<and> getpixel demo_bg 40 40 = Some (255, 0, 0, 255)
   \<and> getpixel (paste demo_bg (resize demo_env demo_fg (250, 250)) (40, 40) None) 40 40 =
       Some (0, 0, 0, 0)
   \<and> getpixel (paste demo_bg (resize demo_env demo_fg (250, 250)) (40, 40) None) 40 40 \<noteq>
       getpixel demo_bg 40 40
   \<and> getpixel (paste demo_bg (resize demo_env demo_fg (250, 250)) (40, 40)
         (Some (resize demo_env demo_fg (250, 250)))) 40 40 = getpixel demo_bg 40 40"
proof -
  let ?job = "JObj [(''template_url'', JStr ''http://host/template.png''),
                    (''user_image_path'', JStr ''user.png'')]"
  let ?out = "paste demo_bg (resize demo_env demo_fg (250, 250)) (40, 40) None"
  have f: "demo_files ''job.json'' = Some [1]" and j: "map_of demo_jobs [1] = Some ?job"
    by (simp_all add: demo_files_def demo_jobs_def)
  note p = demo_parse [OF f j]
  have t: "dict_get ?job ''template_url'' = Inr (JStr ''http://host/template.png'')"
    and u: "dict_get ?job ''user_image_path'' = Inr (JStr ''user.png'')"
    by (simp_all add: dict_get_def)
  have tt: "truthy (JStr ''http://host/template.png'')" and tu: "truthy (JStr ''user.png'')"
    by simp_all
  have lf: "load_image_from_path_or_url demo_env (JStr ''user.png'')
       (log_event (HttpGet (JStr ''http://host/template.png''))
         (log_event (FileOpen ''job.json'') demo_world)) =
      (Inr demo_fg, log_event (FileOpen ''user.png'')
         (log_event (HttpGet (JStr ''http://host/template.png''))
           (log_event (FileOpen ''job.json'') demo_world)))"
    by (rule demo_load_user) (simp add: world_simps demo_world_files)
  have run: "main demo_env (demo_argv ''job.json'') demo_world =
      uncaught (save demo_env ?out ''out.png''
        (log_event (FileOpen ''user.png'')
          (log_event (HttpGet (JStr ''http://host/template.png''))
            (log_event (FileOpen ''job.json'') demo_world))))"
    using main_composite [OF p(1) p(2) p(3) t tt demo_load_template u tu lf]
    by (simp add: p(4))
  have px: "getpixel ?out 40 40 = getpixel (resize demo_env demo_fg (250, 250)) 0 0"
    using getpixel_paste_inside [of 40 40 demo_bg demo_env demo_fg]
    by (simp add: demo_sizes)
  have "pix (resize demo_env demo_fg (250, 250)) 0 0 = (0, 0, 0, 0)"
    by (simp add: pix_resize) (simp add: demo_env_def demo_fg_def pix_def)
  then have "alpha (pix (resize demo_env demo_fg (250, 250)) (nat (int 40 - 40))
      (nat (int 40 - 40))) = 0"
    by (simp add: alpha_def)
  then have masked: "getpixel (paste demo_bg (resize demo_env demo_fg (250, 250)) (40, 40)
      (Some (resize demo_env demo_fg (250, 250)))) 40 40 = getpixel demo_bg 40 40"
    by (rule paste_mask_transparent)
  show ?thesis
    unfolding run saved [OF demo_encode] masked
    by (simp add: px demo_pixels world_simps alpha_def)
qed

text \<open>
  Claim C1 as amended. For every job description with both fields set, when the two
  images load, the image handed to the save is the RGBA background with the foreground,
  stretched to exactly 250 by 250 whatever its proportions, pasted at \<open>(40, 40)\<close>
  without a mask: in the part of the region that lies inside the background every
  pixel is the pixel of the stretched foreground, all four bands of it, whatever its
  alpha. When the encoder succeeds its bytes become the output file.
\<close>

theorem C1_paste_replaces_region:
  assumes "length argv = 3"
    and "read_file (argv ! 1) w = (Inr bs, w1)"
    and "json_load env bs = Inr data"
    and "dict_get data ''template_url'' = Inr t" and "truthy t"
    and "load_image_from_url env t w1 = (Inr bg, w2)"
    and "dict_get data ''user_image_path'' = Inr u" and "truthy u"
    and "load_image_from_path_or_url env u w2 = (Inr fg, w3)"
  shows
    "(let user_img = resize env fg (250, 250);
          out = paste bg user_img (40, 40) None
      in main env argv w = uncaught (save env out (argv ! 2) w3)
       \<and> width user_img = 250 \<and> height user_img = 250
       \<and> length (rows user_img) = 250 \<and> (\<forall>r \<in> set (rows user_img). length r = 250)
       \<and> (\<forall>x y. 40 \<le> x \<and> x < 290 \<and> 40 \<le> y \<and> y < 290 \<and> x < width bg \<and> y < height bg \<longrightarrow>
             getpixel out x y = getpixel user_img (x - 40) (y - 40))
       \<and> (\<forall>obs. encode env (argv ! 2) out = Inr obs \<longrightarrow>
             main env argv w =
               (Inr (), (log_event (ImageSave (argv ! 2) out) w3)
                          \<lparr>files := (files w3)(argv ! 2 \<mapsto> obs)\<rparr>)))"
proof -
  have run: "main env argv w =
      uncaught (save env (paste bg (resize env fg (250, 250)) (40, 40) None) (argv ! 2) w3)"
    by (rule main_composite [OF assms])
  show ?thesis
    unfolding Let_def
    by (intro conjI allI impI)
      (simp_all add: run width_resize height_resize rows_resize getpixel_paste_inside saved)
qed

theorem C1_witness:
  "main demo_env (demo_argv ''job.json'') demo_world =
     (Inr (),
      (log_event
         (ImageSave ''out.png'' (paste demo_bg (resize demo_env demo_fg (250, 250)) (40, 40) None))
         (log_event (FileOpen ''user.png'')
           (log_event (HttpGet (JStr ''http://host/template.png''))
             (log_event (FileOpen ''job.json'') demo_world))))
      \<lparr>files := demo_files(''out.png'' \<mapsto> [12])\<rparr>)
   \<and> getpixel (paste demo_bg (resize demo_env demo_fg (250, 250)) (40, 40) None) 100 200 =
       getpixel (resize demo_env demo_fg (250, 250)) 60 160"
proof -
  let ?job = "JObj [(''template_url'', JStr ''http://host/template.png''),
                    (''user_image_path'', JStr ''user.png'')]"
  let ?w1 = "log_event (FileOpen ''job.json'') demo_world"
  let ?w2 = "log_event (HttpGet (JStr ''http://host/template.png'')) ?w1"
  let ?w3 = "log_event (FileOpen ''user.png'') ?w2"
  have f: "demo_files ''job.json'' = Some [1]" and j: "map_of demo_jobs [1] = Some ?job"
    by (simp_all add: demo_files_def demo_jobs_def)
  note p = demo_parse [OF f j]
  have t: "dict_get ?job ''template_url'' = Inr (JStr ''http://host/template.png'')"
    and u: "dict_get ?job ''user_image_path'' = Inr (JStr ''user.png'')"
    by (simp_all add: dict_get_def)
  have tt: "truthy (JStr ''http://host/template.png'')" and tu: "truthy (JStr ''user.png'')"
    by simp_all
  have lb: "load_image_from_url demo_env (JStr ''http://host/template.png'') ?w1 =
      (Inr demo_bg, ?w2)"
    by (rule demo_load_template)
  have lf: "load_image_from_path_or_url demo_env (JStr ''user.png'') ?w2 = (Inr demo_fg, ?w3)"
    by (rule demo_load_user) (simp add: world_simps demo_world_files)
  from C1_paste_replaces_region [OF p(1) p(2) p(3) t tt lb u tu lf]
  show ?thesis
    by (simp add: Let_def p(4) demo_encode saved [OF demo_encode] demo_sizes world_simps
          demo_world_files)
qed

subsection \<open>C2: the frame of the paste\<close>

text \<open>
  Claim C2. For every job description with both fields set, when the two images load,
  the image handed to the save has the size of the background, and every pixel of it
  outside the 250 by 250 region whose top left corner is \<open>(40, 40)\<close> is the pixel of
  the background: the paste changes nothing outside that region.
\<close>

theorem C2_outside_region_unchanged:
  assumes "length argv = 3"
    and "read_file (argv ! 1) w = (Inr bs, w1)"
    and "json_load env bs = Inr data"
    and "dict_get data ''template_url'' = Inr t" and "truthy t"
    and "load_image_from_url env t w1 = (Inr bg, w2)"
    and "dict_get data ''user_image_path'' = Inr u" and "truthy u"
    and "load_image_from_path_or_url env u w2 = (Inr fg, w3)"
  shows
    "(let out = paste bg (resize env fg (250, 250)) (40, 40) None
      in main env argv w = uncaught (save env out (argv ! 2) w3)
       \<and> width out = width bg \<and> height out = height bg
       \<and> (\<forall>x y. \<not> (40 \<le> x \<and> x < 290 \<and> 40 \<le> y \<and> y < 290) \<longrightarrow>
             getpixel out x y = getpixel bg x y))"
proof -
  have run: "main env argv w =
      uncaught (save env (paste bg (resize env fg (250, 250)) (40, 40) None) (argv ! 2) w3)"
    by (rule main_composite [OF assms])
  have frame: "\<forall>x y. \<not> (40 \<le> x \<and> x < 290 \<and> 40 \<le> y \<and> y < 290) \<longrightarrow>
      getpixel (paste bg (resize env fg (250, 250)) (40, 40) None) x y = getpixel bg x y"
    by (intro allI impI) (rule getpixel_paste_outside)
  show ?thesis
    unfolding Let_def
    using run frame by (simp only: width_paste height_paste simp_thms)
qed

theorem C2_witness:
  "getpixel (paste demo_bg (resize demo_env demo_fg (250, 250)) (40, 40) None) 39 40 =
     getpixel demo_bg 39 40
   \<and> getpixel (paste demo_bg (resize demo_env demo_fg (250, 250)) (40, 40) None) 290 289 =
     getpixel demo_bg 290 289
   \<and> width (paste demo_bg (resize demo_env demo_fg (250, 250)) (40, 40) None) = 300"
proof -
  let ?job = "JObj [(''template_url'', JStr ''http://host/template.png''),
                    (''user_image_path'', JStr ''user.png'')]"
  let ?w1 = "log_event (FileOpen ''job.json'') demo_world"
  let ?w2 = "log_event (HttpGet (JStr ''http://host/template.png'')) ?w1"
  let ?w3 = "log_event (FileOpen ''user.png'') ?w2"
  have f: "demo_files ''job.json'' = Some [1]" and j: "map_of demo_jobs [1] = Some ?job"
    by (simp_all add: demo_files_def demo_jobs_def)
  note p = demo_parse [OF f j]
  have t: "dict_get ?job ''template_url'' = Inr (JStr ''http://host/template.png'')"
    and u: "dict_get ?job ''user_image_path'' = Inr (JStr ''user.png'')"
    by (simp_all add: dict_get_def)
  have tt: "truthy (JStr ''http://host/template.png'')" and tu: "truthy (JStr ''user.png'')"
    by simp_all
  have lb: "load_image_from_url demo_env (JStr ''http://host/template.png'') ?w1 =
      (Inr demo_bg, ?w2)"
    by (rule demo_load_template)
  have lf: "load_image_from_path_or_url demo_env (JStr ''user.png'') ?w2 = (Inr demo_fg, ?w3)"
    by (rule demo_load_user) (simp add: world_simps demo_world_files)
  from C2_outside_region_unchanged [OF p(1) p(2) p(3) t tt lb u tu lf]
  show ?thesis
    by (simp add: Let_def demo_sizes)
qed

subsection \<open>C3: a job with the background only\<close>

lemma load_image_from_url_Inr:
  assumes "load_image_from_url env url w = (Inr im, w')"
  shows "\<exists>resp raw. requests_get env url = Inr resp \<and>
           \<not> (400 \<le> status_code resp \<and> status_code resp < 600) \<and>
           image_open env (content resp) = Inr raw \<and> convert_RGBA env raw = Inr im"
proof -
  have "fst (load_image_from_url env url w) = Inr im"
    using assms by simp
  then show ?thesis
    by (auto simp: fst_load_image_from_url open_convert_def split: sum.splits if_splits)
qed

text \<open>
  Claim C3. For every job description in which only \<open>template_url\<close> is set
  (\<open>data.get('user_image_path')\<close> is \<open>None\<close>), when the background loads, the image
  handed to the save is the background as loaded: the bytes of the response, decoded
  and converted to RGBA, with nothing changed. When the encoder succeeds, the output
  file holds its encoding of that image.
\<close>

theorem C3_background_only:
  assumes "length argv = 3"
    and "read_file (argv ! 1) w = (Inr bs, w1)"
    and "json_load env bs = Inr data"
    and "dict_get data ''template_url'' = Inr t" and "truthy t"
    and "load_image_from_url env t w1 = (Inr bg, w2)"
    and "dict_get data ''user_image_path'' = Inr JNull"
  shows "main env argv w = uncaught (save env bg (argv ! 2) w2)
       \<and> (\<exists>resp raw. requests_get env t = Inr resp \<and>
             image_open env (content resp) = Inr raw \<and> convert_RGBA env raw = Inr bg)
       \<and> (\<forall>obs. encode env (argv ! 2) bg = Inr obs \<longrightarrow>
             main env argv w =
               (Inr (), (log_event (ImageSave (argv ! 2) bg) w2)
                          \<lparr>files := (files w2)(argv ! 2 \<mapsto> obs)\<rparr>))"
proof -
  have run: "main env argv w = uncaught (save env bg (argv ! 2) w2)"
    by (rule main_background_only [OF assms]) simp
  moreover have "\<exists>resp raw. requests_get env t = Inr resp \<and>
      image_open env (content resp) = Inr raw \<and> convert_RGBA env raw = Inr bg"
    using load_image_from_url_Inr [OF assms(6)] by blast
  ultimately show ?thesis
    by (simp add: saved)
qed

theorem C3_witness:
  "main demo_env (demo_argv ''bg_only.json'') demo_world =
     (Inr (),
      (log_event (ImageSave ''out.png'' demo_bg)
         (log_event (HttpGet (JStr ''http://host/template.png''))
           (log_event (FileOpen ''bg_only.json'') demo_world)))
      \<lparr>files := demo_files(''out.png'' \<mapsto> [12])\<rparr>)"
proof -
  let ?job = "JObj [(''template_url'', JStr ''http://host/template.png'')]"
  have f: "demo_files ''bg_only.json'' = Some [2]" and j: "map_of demo_jobs [2] = Some ?job"
    by (simp_all add: demo_files_def demo_jobs_def)
  note p = demo_parse [OF f j]
  have t: "dict_get ?job ''template_url'' = Inr (JStr ''http://host/template.png'')"
    and u: "dict_get ?job ''user_image_path'' = Inr JNull"
    by (simp_all add: dict_get_def)
  have tt: "truthy (JStr ''http://host/template.png'')"
    by simp
  from C3_background_only [OF p(1) p(2) p(3) t tt demo_load_template u]
  show ?thesis
    by (simp add: p(4) demo_encode saved [OF demo_encode] world_simps demo_world_files)
qed

subsection \<open>C4: the foreground resolver\<close>



subsection \<open>C5: the status of a fetch\<close>

text \<open>
  Claim C5 says that a status that is not a success status makes the load raise the
  HTTP status error, and that a success status makes it return the decoded RGBA image
  without error. The script leaves the status to \<open>raise_for_status\<close>, which raises
  for 4xx and 5xx only, and decodes the body after it. In the concrete environment
  \<open>broken.png\<close> is answered with status 200 and a body that is no image, and the load
  raises the decoder's error; \<open>choices.png\<close> is answered with status 300 and the
  bytes of an image, and the load raises nothing and returns the image.
\<close>

theorem C5_counterexample:
  "requests_get demo_env (JStr ''http://host/broken.png'') =
     Inr \<lparr>status_code = 200, content = [13]\<rparr>
   \<and> load_image_from_url demo_env (JStr ''http://host/broken.png'') demo_world =
     (Inl UnidentifiedImageError,
      log_event (HttpGet (JStr ''http://host/broken.png'')) demo_world)
   \<and> requests_get demo_env (JStr ''http://host/choices.png'') =
     Inr \<lparr>status_code = 300, content = [10]\<rparr>
   \<and> load_image_from_url demo_env (JStr ''http://host/choices.png'') demo_world =
     (Inr demo_bg, log_event (HttpGet (JStr ''http://host/choices.png'')) demo_world)"
  by (simp add: load_image_from_url_def raise_for_status_def open_convert_def demo_env_def)

text \<open>
  Claim C5 as amended. For every fetch that gets a response: with a 4xx or 5xx status
  the load raises the HTTP status error after the one GET, with no second request, and
  in \<open>main\<close> that error ends the run, for the background and for a foreground URL
  alike; with any other status, 2xx or not, no status error is raised and the load
  gives what decoding the body and converting it to RGBA gives: the RGBA image when
  the body decodes, the decoder's error when it does not.
\<close>

theorem C5_http_status:
  assumes "requests_get env url = Inr resp"
  shows "load_image_from_url env url w =
           (if 400 \<le> status_code resp \<and> status_code resp < 600
            then Inl (HTTPError (status_code resp))
            else open_convert env (content resp),
            log_event (HttpGet url) w)
       \<and> (\<forall>raw im. \<not> (400 \<le> status_code resp \<and> status_code resp < 600) \<and>
             image_open env (content resp) = Inr raw \<and> convert_RGBA env raw = Inr im \<longrightarrow>
             load_image_from_url env url w = (Inr im, log_event (HttpGet url) w))
       \<and> (\<forall>argv w0 bs w1 data.
             length argv = 3 \<and> read_file (argv ! 1) w0 = (Inr bs, w1) \<and>
             json_load env bs = Inr data \<and>
             dict_get data ''template_url'' = Inr url \<and> truthy url \<and>
             400 \<le> status_code resp \<and> status_code resp < 600 \<longrightarrow>
             main env argv w0 =
               (Inl (Uncaught (HTTPError (status_code resp))), log_event (HttpGet url) w1))
       \<and> (\<forall>argv w0 bs w1 data t bg w2 s.
             length argv = 3 \<and> read_file (argv ! 1) w0 = (Inr bs, w1) \<and>
             json_load env bs = Inr data \<and>
             dict_get data ''template_url'' = Inr t \<and> truthy t \<and>
             load_image_from_url env t w1 = (Inr bg, w2) \<and>
             dict_get data ''user_image_path'' = Inr url \<and> url = JStr s \<and>
             startswith s ''http'' \<and>
             400 \<le> status_code resp \<and> status_code resp < 600 \<longrightarrow>
             main env argv w0 =
               (Inl (Uncaught (HTTPError (status_code resp))), log_event (HttpGet url) w2))"
proof (intro conjI allI impI)
  show eq: "load_image_from_url env url w =
           (if 400 \<le> status_code resp \<and> status_code resp < 600
            then Inl (HTTPError (status_code resp))
            else open_convert env (content resp),
            log_event (HttpGet url) w)"
    using assms by (simp add: load_image_from_url_def raise_for_status_def)
  fix raw im
  assume "\<not> (400 \<le> status_code resp \<and> status_code resp < 600) \<and>
      image_open env (content resp) = Inr raw \<and> convert_RGBA env raw = Inr im"
  then show "load_image_from_url env url w = (Inr im, log_event (HttpGet url) w)"
    unfolding eq by (simp add: open_convert_def)
next
  fix argv w0 bs w1 data
  assume h: "length argv = 3 \<and> read_file (argv ! 1) w0 = (Inr bs, w1) \<and>
             json_load env bs = Inr data \<and>
             dict_get data ''template_url'' = Inr url \<and> truthy url \<and>
             400 \<le> status_code resp \<and> status_code resp < 600"
  then have "fst (load_image_from_url env url w1) = Inl (HTTPError (status_code resp))"
    using assms by (simp add: fst_load_image_from_url)
  moreover from h have "length argv = 3" "read_file (argv ! 1) w0 = (Inr bs, w1)"
    "json_load env bs = Inr data" "dict_get data ''template_url'' = Inr url" "truthy url"
    by simp_all
  ultimately show "main env argv w0 =
      (Inl (Uncaught (HTTPError (status_code resp))), log_event (HttpGet url) w1)"
    by (simp add: main_background_failed)
next
  fix argv w0 bs w1 data t bg w2 s
  assume h: "length argv = 3 \<and> read_file (argv ! 1) w0 = (Inr bs, w1) \<and>
             json_load env bs = Inr data \<and>
             dict_get data ''template_url'' = Inr t \<and> truthy t \<and>
             load_image_from_url env t w1 = (Inr bg, w2) \<and>
             dict_get data ''user_image_path'' = Inr url \<and> url = JStr s \<and>
             startswith s ''http'' \<and>
             400 \<le> status_code resp \<and> status_code resp < 600"
  then have s: "s \<noteq> []"
    by (auto simp: startswith_def)
  have "fst (load_image_from_path_or_url env url w2) = Inl (HTTPError (status_code resp))"
    using h assms
    by (simp add: fst_load_image_from_path_or_url fst_load_image_from_url)
  moreover have "snd (load_image_from_path_or_url env url w2) = log_event (HttpGet url) w2"
    using h by (simp add: snd_load_image_from_path_or_url)
  moreover from h s have "length argv = 3" "read_file (argv ! 1) w0 = (Inr bs, w1)"
    "json_load env bs = Inr data" "dict_get data ''template_url'' = Inr t" "truthy t"
    "load_image_from_url env t w1 = (Inr bg, w2)"
    "dict_get data ''user_image_path'' = Inr url" "truthy url"
    by simp_all
  ultimately show "main env argv w0 =
      (Inl (Uncaught (HTTPError (status_code resp))), log_event (HttpGet url) w2)"
    using main_foreground_failed [of argv w0 bs w1 env data t bg w2 url]
    by simp
qed

theorem C5_witness:
  "load_image_from_url demo_env (JStr ''http://host/gone.png'') demo_world =
     (Inl (HTTPError 404), log_event (HttpGet (JStr ''http://host/gone.png'')) demo_world)
   \<and> main demo_env (demo_argv ''gone.json'') demo_world =
     (Inl (Uncaught (HTTPError 404)),
      log_event (HttpGet (JStr ''http://host/gone.png''))
        (log_event (FileOpen ''gone.json'') demo_world))
   \<and> main demo_env (demo_argv ''gone_fg.json'') demo_world =
     (Inl (Uncaught (HTTPError 404)),
      log_event (HttpGet (JStr ''http://host/gone.png''))
        (log_event (HttpGet (JStr ''http://host/template.png''))
          (log_event (FileOpen ''gone_fg.json'') demo_world)))
   \<and> load_image_from_url demo_env (JStr ''http://host/template.png'') demo_world =
     (Inr demo_bg, log_event (HttpGet (JStr ''http://host/template.png'')) demo_world)"
proof -
  let ?gone = "JStr ''http://host/gone.png''"
  let ?job = "JObj [(''template_url'', ?gone)]"
  let ?job' = "JObj [(''template_url'', JStr ''http://host/template.png''),
                     (''user_image_path'', ?gone)]"
  have g: "requests_get demo_env ?gone = Inr \<lparr>status_code = 404, content = []\<rparr>"
    and g': "requests_get demo_env (JStr ''http://host/template.png'') =
      Inr \<lparr>status_code = 200, content = [10]\<rparr>"
    by (simp_all add: demo_env_def)
  have f: "demo_files ''gone.json'' = Some [7]" and j: "map_of demo_jobs [7] = Some ?job"
    and f': "demo_files ''gone_fg.json'' = Some [14]"
    and j': "map_of demo_jobs [14] = Some ?job'"
    by (simp_all add: demo_files_def demo_jobs_def)
  note p = demo_parse [OF f j] and p' = demo_parse [OF f' j']
  have d: "dict_get ?job ''template_url'' = Inr ?gone"
    "dict_get ?job' ''template_url'' = Inr (JStr ''http://host/template.png'')"
    "dict_get ?job' ''user_image_path'' = Inr ?gone"
    by (simp_all add: dict_get_def)
  have st: "startswith ''http://host/gone.png'' ''http''"
    by (simp add: startswith_def)
  have dec: "image_open demo_env [10] = Inr demo_bg" "convert_RGBA demo_env demo_bg = Inr demo_bg"
    by (simp_all add: demo_env_def)
  note c = C5_http_status [OF g] and c' = C5_http_status [OF g', of demo_world]
  have 1: "load_image_from_url demo_env ?gone demo_world =
      (Inl (HTTPError 404), log_event (HttpGet ?gone) demo_world)"
    using c [of demo_world] by simp
  have 2: "main demo_env (demo_argv ''gone.json'') demo_world =
      (Inl (Uncaught (HTTPError 404)),
       log_event (HttpGet ?gone) (log_event (FileOpen ''gone.json'') demo_world))"
    using c [of demo_world, THEN conjunct2, THEN conjunct2, THEN conjunct1, rule_format,
        of "demo_argv ''gone.json''" demo_world "[7]" _ ?job] p d
    by simp
  have 3: "main demo_env (demo_argv ''gone_fg.json'') demo_world =
      (Inl (Uncaught (HTTPError 404)),
       log_event (HttpGet ?gone)
        (log_event (HttpGet (JStr ''http://host/template.png''))
          (log_event (FileOpen ''gone_fg.json'') demo_world)))"
    using c [of demo_world, THEN conjunct2, THEN conjunct2, THEN conjunct2, rule_format,
        of "demo_argv ''gone_fg.json''" demo_world "[14]" _ ?job'
           "JStr ''http://host/template.png''" demo_bg _ "''http://host/gone.png''"]
      p' d st demo_load_template
    by simp
  have 4: "load_image_from_url demo_env (JStr ''http://host/template.png'') demo_world =
      (Inr demo_bg, log_event (HttpGet (JStr ''http://host/template.png'')) demo_world)"
    using c' [THEN conjunct2, THEN conjunct1, rule_format, of demo_bg demo_bg] dec
    by simp
  from 1 2 3 4 show ?thesis
    by simp
qed

subsection \<open>C6: no output before the save\<close>

text \<open>
  The save is reached only when the job file was read and parsed, the background
  loaded, and the foreground, if one is set, loaded too; a run without a save ended in
  an error and wrote no file.
\<close>

lemma fst_log_event:
  "fst (read_file p (log_event e w)) = fst (read_file p w)"
  "fst (load_image_from_url env t (log_event e w)) = fst (load_image_from_url env t w)"
  "fst (load_image_from_path_or_url env u (log_event e w)) =
     fst (load_image_from_path_or_url env u w)"
  by (simp_all add: fst_read_file fst_load_image_from_url fst_load_image_from_path_or_url
        world_simps split: json.splits)

lemma main_save_or_error:
  "trace (snd (main env argv w)) =
     trace w @ drop (length (trace w)) (trace (snd (main env argv w))) \<and>
   (if \<exists>p im. ImageSave p im \<in> set (drop (length (trace w)) (trace (snd (main env argv w))))
    then \<exists>bs data t bg.
           fst (read_file (argv ! 1) w) = Inr bs \<and> json_load env bs = Inr data \<and>
           dict_get data ''template_url'' = Inr t \<and> truthy t \<and>
           fst (load_image_from_url env t w) = Inr bg \<and>
           (\<forall>u. dict_get data ''user_image_path'' = Inr u \<and> truthy u \<longrightarrow>
              (\<exists>fg. fst (load_image_from_path_or_url env u w) = Inr fg))
    else fst (main env argv w) \<noteq> Inr () \<and> exit_status (fst (main env argv w)) \<noteq> 0 \<and>
         files (snd (main env argv w)) = files w)"
  unfolding main_def case_result Let_def
  by (simp add: snd_read_file snd_load_image_from_url snd_load_image_from_path_or_url
        trace_save snd_uncaught fst_uncaught world_simps fst_log_event
        split: sum.splits json.splits)

text \<open>
  Claim C6. For every run: the events it adds to the trace hold a save only if the job
  file was read and parsed, the background loaded and the foreground, when one is set,
  loaded; so a run in which the background fetch returns an HTTP error status, the
  local foreground file is missing, or a decoder fails, never reaches the save. A run
  that does not reach the save ends with a non-zero exit status and leaves every file
  as it was: no output file is created.
\<close>

theorem C6_no_output_before_save:
  assumes "main env argv w = (r, w')"
  shows "\<exists>evs. trace w' = trace w @ evs \<and>
     (if \<exists>p im. ImageSave p im \<in> set evs
      then \<exists>bs data t bg.
             fst (read_file (argv ! 1) w) = Inr bs \<and> json_load env bs = Inr data \<and>
             dict_get data ''template_url'' = Inr t \<and> truthy t \<and>
             fst (load_image_from_url env t w) = Inr bg \<and>
             (\<forall>u. dict_get data ''user_image_path'' = Inr u \<and> truthy u \<longrightarrow>
                (\<exists>fg. fst (load_image_from_path_or_url env u w) = Inr fg))
      else r \<noteq> Inr () \<and> exit_status r \<noteq> 0 \<and> files w' = files w)"
proof -
  have run: "fst (main env argv w) = r" "snd (main env argv w) = w'"
    using assms by simp_all
  show ?thesis
    using main_save_or_error [of env argv w] unfolding run
    by (rule exI [of _ "drop (length (trace w)) (trace w')"])
qed

theorem C6_witness:
  "exit_status (fst (main demo_env (demo_argv ''gone.json'') demo_world)) \<noteq> 0
   \<and> files (snd (main demo_env (demo_argv ''gone.json'') demo_world)) = demo_files
   \<and> exit_status (fst (main demo_env (demo_argv ''missing_fg.json'') demo_world)) \<noteq> 0
   \<and> files (snd (main demo_env (demo_argv ''missing_fg.json'') demo_world)) = demo_files
   \<and> exit_status (fst (main demo_env (demo_argv ''broken.json'') demo_world)) \<noteq> 0
   \<and> files (snd (main demo_env (demo_argv ''broken.json'') demo_world)) = demo_files
   \<and> demo_files ''out.png'' = None"
proof -
  have early: "exit_status (fst (main demo_env argv demo_world)) \<noteq> 0 \<and>
      files (snd (main demo_env argv demo_world)) = demo_files"
    if "\<forall>p im. ImageSave p im \<notin> set (trace (snd (main demo_env argv demo_world)))"
    for argv
  proof -
    obtain r w' where run: "main demo_env argv demo_world = (r, w')"
      by (cases "main demo_env argv demo_world")
    from C6_no_output_before_save [OF run] that run show ?thesis
      by (auto simp: demo_world_def split: if_splits)
  qed
  have 1: "trace (snd (main demo_env (demo_argv ''gone.json'') demo_world)) =
      [FileOpen ''gone.json'', HttpGet (JStr ''http://host/gone.png'')]"
    by (simp add: main_def demo_argv_def demo_world_def demo_env_def demo_files_def
          demo_jobs_def read_file_def log_event_def dict_get_def load_image_from_url_def
          raise_for_status_def)
  have 2: "trace (snd (main demo_env (demo_argv ''missing_fg.json'') demo_world)) =
      [FileOpen ''missing_fg.json'', HttpGet (JStr ''http://host/template.png''),
       FileOpen ''nofile.png'']"
    by (simp add: main_def demo_argv_def demo_world_def demo_env_def demo_files_def
          demo_jobs_def read_file_def log_event_def dict_get_def load_image_from_url_def
          load_image_from_path_or_url_def startswith_def
          raise_for_status_def open_convert_def)
  have 3: "trace (snd (main demo_env (demo_argv ''broken.json'') demo_world)) =
      [FileOpen ''broken.json'', HttpGet (JStr ''http://host/broken.png'')]"
    by (simp add: main_def demo_argv_def demo_world_def demo_env_def demo_files_def
          demo_jobs_def read_file_def log_event_def dict_get_def load_image_from_url_def
          raise_for_status_def open_convert_def)
  have "demo_files ''out.png'' = None"
    by (simp add: demo_files_def)
  with early [of "demo_argv ''gone.json''"] early [of "demo_argv ''missing_fg.json''"]
    early [of "demo_argv ''broken.json''"]
  show ?thesis
    by (simp add: 1 2 3)
qed

subsection \<open>C7: a job without template_url\<close>

text \<open>
  Claim C7. For every job description that has no key \<open>template_url\<close>, the run prints
  one line, \<open>Missing template_url in input data\<close>, and exits with status 1; it makes
  no request and no save, the only event being the reading of the job file, and it
  leaves every file as it was.
\<close>

theorem C7_missing_template_url:
  assumes "length argv = 3"
    and "read_file (argv ! 1) w = (Inr bs, w1)"
    and "json_load env bs = Inr (JObj kvs)"
    and "''template_url'' \<notin> fst ` set kvs"
  shows "main env argv w =
           (Inl (SystemExit 1), print (''Missing template_url'' @ '' in input data'') w1)
       \<and> exit_status (fst (main env argv w)) = 1
       \<and> stdout (snd (main env argv w)) =
           stdout w @ [''Missing template_url'' @ '' in input data'']
       \<and> trace (snd (main env argv w)) = trace w @ [FileOpen (argv ! 1)]
       \<and> files (snd (main env argv w)) = files w"
proof -
  have w1: "w1 = log_event (FileOpen (argv ! 1)) w"
    using assms(2) by (simp add: read_file_eq)
  have "main env argv w = (Inl (SystemExit 1), print ''Missing template_url in input data'' w1)"
    by (rule main_missing [OF assms(1-3) dict_get_absent [OF assms(4)]]) simp
  then show ?thesis
    by (simp add: w1 world_simps)
qed

theorem C7_witness:
  "main demo_env (demo_argv ''no_template.json'') demo_world =
     (Inl (SystemExit 1),
      \<lparr>files = demo_files, stdout = [''Missing template_url in input data''],
       trace = [FileOpen ''no_template.json'']\<rparr>)"
proof -
  have f: "demo_files ''no_template.json'' = Some [3]"
    and j: "map_of demo_jobs [3] = Some (JObj [(''user_image_path'', JStr ''user.png'')])"
    by (simp_all add: demo_files_def demo_jobs_def)
  note p = demo_parse [OF f j]
  have a: "''template_url'' \<notin> fst ` set [(''user_image_path'', JStr ''user.png'')]"
    by simp
  from C7_missing_template_url [OF p(1) p(2) p(3) a]
  show ?thesis
    by (simp add: print_def log_event_def demo_world_def)
qed

subsection \<open>C8: the run is a function of what it reads\<close>






subsection \<open>C9: the background is always fetched\<close>

text \<open>
  Claim C9. For every job description whose \<open>template_url\<close> is a string that is not
  empty and does not start with \<open>http\<close>: the first thing the run does after reading
  the job file is the HTTP GET of that string; any file it opens afterwards is the one
  \<open>user_image_path\<close> names; and when the HTTP library refuses the string the run
  ends with that error, whether or not a file of that name exists. The foreground
  resolver, given the same string, would open the file instead.
\<close>

theorem C9_background_always_http:
  assumes "length argv = 3"
    and "read_file (argv ! 1) w = (Inr bs, w1)"
    and "json_load env bs = Inr data"
    and "dict_get data ''template_url'' = Inr (JStr s)"
    and "s \<noteq> []" and "\<not> startswith s ''http''"
  shows "(\<exists>evs. trace (snd (main env argv w)) =
                 trace w @ [FileOpen (argv ! 1), HttpGet (JStr s)] @ evs
             \<and> (\<forall>p. FileOpen p \<in> set evs \<longrightarrow>
                    dict_get data ''user_image_path'' = Inr (JStr p) \<and>
                    \<not> startswith p ''http''))
       \<and> (\<forall>e. requests_get env (JStr s) = Inl e \<longrightarrow>
             main env argv w = (Inl (Uncaught e), log_event (HttpGet (JStr s)) w1))
       \<and> snd (load_image_from_path_or_url env (JStr s) w1) = log_event (FileOpen s) w1"
proof (intro conjI allI impI)
  have t: "truthy (JStr s)"
    using assms(5) by simp
  show "\<exists>evs. trace (snd (main env argv w)) =
                 trace w @ [FileOpen (argv ! 1), HttpGet (JStr s)] @ evs
             \<and> (\<forall>p. FileOpen p \<in> set evs \<longrightarrow>
                    dict_get data ''user_image_path'' = Inr (JStr p) \<and>
                    \<not> startswith p ''http'')"
    using main_trace_after_fetch [OF assms(1-4) t]
    by (rule exI [of _ "drop (length (trace w) + 2) (trace (snd (main env argv w)))"])
  show "snd (load_image_from_path_or_url env (JStr s) w1) = log_event (FileOpen s) w1"
    using assms(6) by (simp add: snd_load_image_from_path_or_url)
  fix e
  assume "requests_get env (JStr s) = Inl e"
  then have "fst (load_image_from_url env (JStr s) w1) = Inl e"
    by (simp add: fst_load_image_from_url)
  then show "main env argv w = (Inl (Uncaught e), log_event (HttpGet (JStr s)) w1)"
    by (rule main_background_failed [OF assms(1-4) t])
qed

theorem C9_witness:
  "main demo_env (demo_argv ''local_template.json'') demo_world =
     (Inl (Uncaught RequestException),
      log_event (HttpGet (JStr ''template.png''))
        (log_event (FileOpen ''local_template.json'') demo_world))
   \<and> files demo_world ''template.png'' = Some [10]"
proof -
  let ?job = "JObj [(''template_url'', JStr ''template.png'')]"
  have f: "demo_files ''local_template.json'' = Some [6]"
    and j: "map_of demo_jobs [6] = Some ?job"
    by (simp_all add: demo_files_def demo_jobs_def)
  note p = demo_parse [OF f j]
  have t: "dict_get ?job ''template_url'' = Inr (JStr ''template.png'')"
    by (simp add: dict_get_def)
  have n: "''template.png'' \<noteq> []" "\<not> startswith ''template.png'' ''http''"
    by (simp_all add: startswith_def)
  have r: "requests_get demo_env (JStr ''template.png'') = Inl RequestException"
    by (simp add: demo_env_def)
  from C9_background_always_http [OF p(1) p(2) p(3) t n] r
  show ?thesis
    by (simp add: demo_world_def demo_files_def)
qed

subsection \<open>C10: empty strings count as absent\<close>

lemma main_without_template_key:
  assumes "length argv = 3" "read_file (argv ! 1) w = (Inr bs, w1)"
    "json_load env bs = Inr data" "dict_get data ''template_url'' = Inr t"
  shows "main (env\<lparr>json_load := \<lambda>_. Inr (without_key ''template_url'' data)\<rparr>) argv w =
           (Inl (SystemExit 1), print ''Missing template_url in input data'' w1)"
proof -
  obtain kvs where d: "data = JObj kvs"
    using dict_get_is_dict [OF assms(4)] by blast
  show ?thesis
    by (rule main_missing [OF assms(1,2), where data = "without_key ''template_url'' data"
          and t = JNull])
      (simp_all add: d dict_get_without_key)
qed

lemma main_without_user_key:
  assumes "length argv = 3" "read_file (argv ! 1) w = (Inr bs, w1)"
    "json_load env bs = Inr data" "dict_get data ''user_image_path'' = Inr u" "\<not> truthy u"
  shows "main (env\<lparr>json_load := \<lambda>_. Inr (without_key ''user_image_path'' data)\<rparr>) argv w =
           main env argv w"
proof -
  obtain kvs where d: "data = JObj kvs"
    using dict_get_is_dict [OF assms(4)] by blast
  let ?env = "env\<lparr>json_load := \<lambda>_. Inr (without_key ''user_image_path'' data)\<rparr>"
  let ?t = "case map_of (rev kvs) ''template_url'' of None \<Rightarrow> JNull | Some v \<Rightarrow> v"
  have t: "dict_get data ''template_url'' = Inr ?t"
    by (simp add: d dict_get_JObj)
  have j': "json_load ?env bs = Inr (without_key ''user_image_path'' data)"
    by simp
  have t': "dict_get (without_key ''user_image_path'' data) ''template_url'' = Inr ?t"
    by (simp add: d dict_get_without_key dict_get_JObj)
  have u': "dict_get (without_key ''user_image_path'' data) ''user_image_path'' = Inr JNull"
    by (simp add: d dict_get_without_key)
  show ?thesis
    unfolding main_parsed [OF assms(1-3) t] main_parsed [OF assms(1,2) j' t']
    using assms(4,5)
    by (simp add: u' json_load_irrelevant cong: prod.case_cong sum.case_cong if_cong)
qed

text \<open>
  Claim C10. For every job description: when \<open>template_url\<close> is the empty string, the
  run prints the missing-field line and exits with status 1, exactly as the run on the
  same description without that key does; when \<open>user_image_path\<close> is the empty
  string, the run is the run on the same description without that key, so that no
  foreground is resolved and, when the background loads, the image saved is the
  background alone.
\<close>

theorem C10_empty_string_is_absent:
  assumes "length argv = 3"
    and "read_file (argv ! 1) w = (Inr bs, w1)"
    and "json_load env bs = Inr data"
  shows "(dict_get data ''template_url'' = Inr (JStr []) \<longrightarrow>
            main env argv w =
              (Inl (SystemExit 1), print ''Missing template_url in input data'' w1) \<and>
            main env argv w =
              main (env\<lparr>json_load := \<lambda>_. Inr (without_key ''template_url'' data)\<rparr>) argv w)
       \<and> (dict_get data ''user_image_path'' = Inr (JStr []) \<longrightarrow>
            main env argv w =
              main (env\<lparr>json_load := \<lambda>_. Inr (without_key ''user_image_path'' data)\<rparr>) argv w \<and>
            (\<forall>t bg w2. dict_get data ''template_url'' = Inr t \<and> truthy t \<and>
                 load_image_from_url env t w1 = (Inr bg, w2) \<longrightarrow>
                 main env argv w = uncaught (save env bg (argv ! 2) w2)))"
proof (intro conjI allI impI)
  assume t: "dict_get data ''template_url'' = Inr (JStr [])"
  show a: "main env argv w =
      (Inl (SystemExit 1), print ''Missing template_url in input data'' w1)"
    by (rule main_missing [OF assms t]) simp
  show "main env argv w =
      main (env\<lparr>json_load := \<lambda>_. Inr (without_key ''template_url'' data)\<rparr>) argv w"
    unfolding a main_without_template_key [OF assms t] ..
next
  assume u: "dict_get data ''user_image_path'' = Inr (JStr [])"
  show "main env argv w =
      main (env\<lparr>json_load := \<lambda>_. Inr (without_key ''user_image_path'' data)\<rparr>) argv w"
    by (rule main_without_user_key [OF assms u, symmetric]) simp
  fix t bg w2
  assume "dict_get data ''template_url'' = Inr t \<and> truthy t \<and>
      load_image_from_url env t w1 = (Inr bg, w2)"
  then show "main env argv w = uncaught (save env bg (argv ! 2) w2)"
    using main_background_only [OF assms, of t bg w2 "JStr []"] u by simp
qed

theorem C10_witness:
  "main demo_env (demo_argv ''empty_template.json'') demo_world =
     (Inl (SystemExit 1),
      print ''Missing template_url in input data''
        (log_event (FileOpen ''empty_template.json'') demo_world))
   \<and> main demo_env (demo_argv ''empty_user.json'') demo_world =
     uncaught (save demo_env demo_bg ''out.png''
       (log_event (HttpGet (JStr ''http://host/template.png''))
         (log_event (FileOpen ''empty_user.json'') demo_world)))"
proof -
  let ?job = "JObj [(''template_url'', JStr []), (''user_image_path'', JStr ''user.png'')]"
  let ?job' = "JObj [(''template_url'', JStr ''http://host/template.png''),
                     (''user_image_path'', JStr [])]"
  have f: "demo_files ''empty_template.json'' = Some [4]"
    and j: "map_of demo_jobs [4] = Some ?job"
    and f': "demo_files ''empty_user.json'' = Some [5]"
    and j': "map_of demo_jobs [5] = Some ?job'"
    by (simp_all add: demo_files_def demo_jobs_def)
  note p = demo_parse [OF f j] and p' = demo_parse [OF f' j']
  have d: "dict_get ?job ''template_url'' = Inr (JStr [])"
    "dict_get ?job' ''user_image_path'' = Inr (JStr [])"
    "dict_get ?job' ''template_url'' = Inr (JStr ''http://host/template.png'')"
    by (simp_all add: dict_get_def)
  from C10_empty_string_is_absent [OF p(1) p(2) p(3)] d(1)
  have 1: "main demo_env (demo_argv ''empty_template.json'') demo_world =
      (Inl (SystemExit 1),
       print ''Missing template_url in input data''
         (log_event (FileOpen ''empty_template.json'') demo_world))"
    by blast
  from C10_empty_string_is_absent [OF p'(1) p'(2) p'(3)] d(2)
  have "\<forall>t bg w2. dict_get ?job' ''template_url'' = Inr t \<and> truthy t \<and>
      load_image_from_url demo_env t (log_event (FileOpen ''empty_user.json'') demo_world) =
        (Inr bg, w2) \<longrightarrow>
      main demo_env (demo_argv ''empty_user.json'') demo_world =
        uncaught (save demo_env bg (demo_argv ''empty_user.json'' ! 2) w2)"
    by blast
  then have 2: "main demo_env (demo_argv ''empty_user.json'') demo_world =
      uncaught (save demo_env demo_bg ''out.png''
        (log_event (HttpGet (JStr ''http://host/template.png''))
          (log_event (FileOpen ''empty_user.json'') demo_world)))"
    using d(3) demo_load_template p'(4) by simp
  from 1 2 show ?thesis
    by simp
qed

end
